theory Spec2Isabelle
  imports Complex_Main
begin

section \<open>Data model of the Node client (packages/node/src/client.ts)\<close>

text \<open>
  Modelled from the spec: the enumeration \<open>RequestSessionStatus\<close> is imported by
  \<open>client.ts\<close> from \<open>@sentry/types\<close>, whose declaration is not among the sources. Its
  members are the five statuses the data model of the specification lists.
\<close>

datatype RequestSessionStatus = Ok | Errored | Crashed | Abnormal | Exited

text \<open>
  Modelled from the spec: a request session is a record with a \<open>status\<close>, and a scope
  holds an optional request session (\<open>scope.getRequestSession()\<close> of \<open>client.ts\<close> and
  \<open>scope.setRequestSession\<close> of the tests read and write it). The \<open>Scope\<close> class itself
  lives in \<open>@sentry/hub\<close>; whatever else it holds is the extension part of the record.
\<close>

record RequestSession =
  status :: RequestSessionStatus

record Scope =
  requestSession :: "RequestSession option"

definition getRequestSession :: "'a Scope_scheme \<Rightarrow> RequestSession option" where
  "getRequestSession scope = requestSession scope"

definition setRequestSession :: "RequestSession option \<Rightarrow> 'a Scope_scheme \<Rightarrow> 'a Scope_scheme" where
  "setRequestSession rs scope = scope\<lparr>requestSession := rs\<rparr>"

text \<open>
  The status the tests read after a call, \<open>scope.getRequestSession()!.status\<close>:
  \<open>None\<close> when no scope is supplied or the scope has no request session.
\<close>

definition requestStatus :: "'a Scope_scheme option \<Rightarrow> RequestSessionStatus option" where
  "requestStatus scope =
     (case scope of
        None \<Rightarrow> None
      | Some s \<Rightarrow> (case getRequestSession s of None \<Rightarrow> None | Some rs \<Rightarrow> Some (status rs)))"

text \<open>
  The part of an \<open>Event\<close> that \<open>captureEvent\<close> reads: the optional \<open>type\<close> string
  (\<open>event_type\<close>) and the optional \<open>exception\<close> object with its optional \<open>values\<close>
  array (\<open>exception_values\<close>). The element type of the array is left open.
\<close>

record 'x EventException =
  exception_values :: "'x list option"

record 'x Event =
  message :: "string option"
  event_type :: "string option"
  exception :: "'x EventException option"

text \<open>
  The options \<open>client.ts\<close> reads. \<open>autoSessionTracking\<close> is an optional boolean and
  \<open>release\<close>, \<open>environment\<close> and \<open>serverName\<close> are optional strings; an absent option
  is \<open>None\<close>.
\<close>

record NodeOptions =
  autoSessionTracking :: "bool option"
  release :: "string option"
  environment :: "string option"
  serverName :: "string option"

text \<open>JavaScript truthiness of an optional boolean and of an optional string.\<close>

fun truthy_bool :: "bool option \<Rightarrow> bool" where
  "truthy_bool None = False"
| "truthy_bool (Some b) = b"

fun truthy_string :: "string option \<Rightarrow> bool" where
  "truthy_string None = False"
| "truthy_string (Some s) = (s \<noteq> [])"

section \<open>The session flusher\<close>

text \<open>
  Modelled from the spec: the class \<open>SessionFlusher\<close> of \<open>@sentry/hub\<close> is constructed
  and called by \<open>client.ts\<close> but its source is not among the sources. The model follows
  section 4.4 of the specification: a table of per-minute buckets of session counts, an
  enabled flag, the periodic timer, and the payloads handed to the transport. The field
  \<open>flushCalls\<close> counts the calls of \<open>flush\<close>, as the spy of the test
  \<open>client close function disables _sessionFlusher\<close> does.
\<close>

record AggregationCounts =
  exited :: nat
  errored :: nat
  crashed :: nat
  abnormal :: nat

record SessionAggregates =
  attrs_release :: string
  attrs_environment :: "string option"
  aggregates :: "(nat \<times> AggregationCounts) list"

record 't SessionFlusher =
  flusher_transport :: 't
  flusher_release :: string
  flusher_environment :: "string option"
  isEnabled :: bool
  intervalRunning :: bool
  pendingAggregates :: "(nat \<times> AggregationCounts) list"
  flushCalls :: nat
  sent :: "SessionAggregates list"

text \<open>
  Modelled from the spec: the constructor of the absent class,
  \<open>new SessionFlusher(transport, {release, environment})\<close>: an enabled flusher with an
  empty table and its periodic timer started.
\<close>

definition new_SessionFlusher :: "'t \<Rightarrow> string \<Rightarrow> string option \<Rightarrow> 't SessionFlusher" where
  "new_SessionFlusher tr rel env =
     \<lparr>flusher_transport = tr, flusher_release = rel, flusher_environment = env,
      isEnabled = True, intervalRunning = True, pendingAggregates = [],
      flushCalls = 0, sent = []\<rparr>"

text \<open>
  Modelled from the spec: \<open>flush()\<close> of the absent class swaps the bucket table for an empty one and hands the drained buckets to
  the transport as one payload; a drain with no bucket sends nothing.
\<close>

definition flush :: "'t SessionFlusher \<Rightarrow> 't SessionFlusher" where
  "flush f =
     (let drained = pendingAggregates f;
          f1 = f\<lparr>pendingAggregates := [], flushCalls := Suc (flushCalls f)\<rparr>
      in if drained = [] then f1
         else f1\<lparr>sent := sent f1 @
                [\<lparr>attrs_release = flusher_release f,
                  attrs_environment = flusher_environment f,
                  aggregates = drained\<rparr>]\<rparr>)"

text \<open>
  Modelled from the spec: \<open>close()\<close> of the absent class disables the flusher, cancels
  the periodic timer and performs one final synchronous \<open>flush()\<close>, in this order.
\<close>

definition SessionFlusher_close :: "'t SessionFlusher \<Rightarrow> 't SessionFlusher" where
  "SessionFlusher_close f = flush (f\<lparr>isEnabled := False, intervalRunning := False\<rparr>)"

text \<open>
  Modelled from the spec: the counter of a bucket that a status increments in the absent
  class: \<open>Errored\<close> the errored one,
  \<open>Crashed\<close> the crashed one, \<open>Abnormal\<close> the abnormal one, and \<open>Ok\<close> (a request that
  was never errored) the exited one, as \<open>Exited\<close> does.
\<close>

fun bump_counts :: "RequestSessionStatus \<Rightarrow> AggregationCounts \<Rightarrow> AggregationCounts" where
  "bump_counts Errored c = c\<lparr>errored := Suc (errored c)\<rparr>"
| "bump_counts Crashed c = c\<lparr>crashed := Suc (crashed c)\<rparr>"
| "bump_counts Abnormal c = c\<lparr>abnormal := Suc (abnormal c)\<rparr>"
| "bump_counts Ok c = c\<lparr>exited := Suc (exited c)\<rparr>"
| "bump_counts Exited c = c\<lparr>exited := Suc (exited c)\<rparr>"

definition empty_counts :: AggregationCounts where
  "empty_counts = \<lparr>exited = 0, errored = 0, crashed = 0, abnormal = 0\<rparr>"

fun bump_bucket ::
  "nat \<Rightarrow> RequestSessionStatus \<Rightarrow> (nat \<times> AggregationCounts) list \<Rightarrow> (nat \<times> AggregationCounts) list"
where
  "bump_bucket k st [] = [(k, bump_counts st empty_counts)]"
| "bump_bucket k st ((k', c) # bs) =
     (if k' = k then (k', bump_counts st c) # bs else (k', c) # bump_bucket k st bs)"

text \<open>
  Modelled from the spec: \<open>incrementSessionStatusCount(status, timestamp)\<close> of the
  absent class, the timestamp in seconds: the
  bucket is the timestamp truncated to the minute. A closed flusher ignores the call
  and warns.
\<close>

definition flusher_closed_warning :: string where
  "flusher_closed_warning = ''Session flusher is closed, ignoring the session''"

definition incrementSessionStatusCount ::
  "RequestSessionStatus \<Rightarrow> nat \<Rightarrow> 't SessionFlusher \<Rightarrow> 't SessionFlusher \<times> string list"
where
  "incrementSessionStatusCount st timestamp f =
     (if \<not> isEnabled f then (f, [flusher_closed_warning])
      else (f\<lparr>pendingAggregates :=
                bump_bucket (timestamp - timestamp mod 60) st (pendingAggregates f)\<rparr>, []))"

section \<open>The Node client\<close>

text \<open>
  A \<open>NodeClient\<close> holds its options, the transport of its backend
  (\<open>this._backend.getTransport()\<close>) and the optional \<open>_sessionFlusher\<close>, which the
  constructor leaves undefined.
\<close>

record 't NodeClient =
  options :: NodeOptions
  backend_transport :: 't
  sessionFlusher :: "'t SessionFlusher option"

definition new_NodeClient :: "NodeOptions \<Rightarrow> 't \<Rightarrow> 't NodeClient" where
  "new_NodeClient opts tr = \<lparr>options = opts, backend_transport = tr, sessionFlusher = None\<rparr>"

text \<open>
  The guard both capture methods start with:
  \<open>this._options.autoSessionTracking && this._sessionFlusher && scope\<close>.
\<close>

definition tracking_active :: "'t NodeClient \<Rightarrow> 'a Scope_scheme option \<Rightarrow> bool" where
  "tracking_active c scope =
     (truthy_bool (autoSessionTracking (options c)) \<and> sessionFlusher c \<noteq> None \<and> scope \<noteq> None)"

text \<open>
  The inner block of both capture methods:
  \<open>if (requestSession && requestSession.status === RequestSessionStatus.Ok)
     requestSession.status = RequestSessionStatus.Errored\<close>.
  The request session is the object the scope holds, so the assignment is an update of
  the scope.
\<close>

definition mark_errored :: "'a Scope_scheme \<Rightarrow> 'a Scope_scheme" where
  "mark_errored scope =
     (case getRequestSession scope of
        None \<Rightarrow> scope
      | Some rs \<Rightarrow>
          if status rs = Ok then scope\<lparr>requestSession := Some (rs\<lparr>status := Errored\<rparr>)\<rparr>
          else scope)"

text \<open>
  \<open>captureException(exception, hint?, scope?)\<close>. The base capture path
  \<open>super.captureException\<close> belongs to \<open>BaseClient\<close> of \<open>@sentry/core\<close> and is a parameter
  here: it is applied to the exception, the hint and the scope as the method leaves it.
  The result is the return value of the base path and the scope handed to it.
\<close>

definition captureException ::
  "('e \<Rightarrow> 'h option \<Rightarrow> 'a Scope_scheme option \<Rightarrow> 'r) \<Rightarrow> 't NodeClient \<Rightarrow>
     'e \<Rightarrow> 'h option \<Rightarrow> 'a Scope_scheme option \<Rightarrow> 'r \<times> 'a Scope_scheme option"
where
  "captureException super_captureException c exc hint scope =
     (let scope' = (if tracking_active c scope then map_option mark_errored scope else scope)
      in (super_captureException exc hint scope', scope'))"

text \<open>
  \<open>captureEvent(event, hint?, scope?)\<close>. The event type defaults to \<open>'exception'\<close> when
  \<open>event.type\<close> is falsy (absent or the empty string).
\<close>

definition eventType :: "('x, 'b) Event_scheme \<Rightarrow> string" where
  "eventType event = (if truthy_string (event_type event) then the (event_type event) else ''exception'')"

definition isException :: "('x, 'b) Event_scheme \<Rightarrow> bool" where
  "isException event =
     (eventType event = ''exception'' \<and>
      (case exception event of
         None \<Rightarrow> False
       | Some ex \<Rightarrow> (case exception_values ex of None \<Rightarrow> False | Some vs \<Rightarrow> length vs > 0)))"

definition captureEvent ::
  "(('x, 'b) Event_scheme \<Rightarrow> 'h option \<Rightarrow> 'a Scope_scheme option \<Rightarrow> 'r) \<Rightarrow> 't NodeClient \<Rightarrow>
     ('x, 'b) Event_scheme \<Rightarrow> 'h option \<Rightarrow> 'a Scope_scheme option \<Rightarrow> 'r \<times> 'a Scope_scheme option"
where
  "captureEvent super_captureEvent c event hint scope =
     (let scope' = (if tracking_active c scope \<and> isException event
                    then map_option mark_errored scope else scope)
      in (super_captureEvent event hint scope', scope'))"

text \<open>
  \<open>close(timeout?)\<close>: \<open>this._sessionFlusher?.close()\<close>, then
  \<open>return super.close(timeout)\<close>. The base \<open>close\<close> is a parameter, applied to the
  timeout and to the client as the first statement leaves it.
\<close>

definition close_sessionFlusher :: "'t NodeClient \<Rightarrow> 't NodeClient" where
  "close_sessionFlusher c = c\<lparr>sessionFlusher := map_option SessionFlusher_close (sessionFlusher c)\<rparr>"

definition close ::
  "(nat option \<Rightarrow> 't NodeClient \<Rightarrow> 'r) \<Rightarrow> nat option \<Rightarrow> 't NodeClient \<Rightarrow> 'r \<times> 't NodeClient"
where
  "close super_close timeout c =
     (let c' = close_sessionFlusher c in (super_close timeout c', c'))"

text \<open>
  \<open>initSessionFlusher()\<close>: \<open>!release\<close> holds for an absent and for an empty release.
  The result is the client and the warnings logged.
\<close>

definition no_release_warning :: string where
  "no_release_warning = ''Cannot initialise an instance of SessionFlusher if no release is provided!''"

definition initSessionFlusher :: "'t NodeClient \<Rightarrow> 't NodeClient \<times> string list" where
  "initSessionFlusher c =
     (if \<not> truthy_string (release (options c)) then (c, [no_release_warning])
      else (c\<lparr>sessionFlusher :=
                Some (new_SessionFlusher (backend_transport c) (the (release (options c)))
                        (environment (options c)))\<rparr>, []))"

text \<open>
  \<open>_captureRequestSession()\<close>. The method has no parameter, and its call of the flusher
  is \<open>this._sessionFlusher.incrementSessionStatusCount()\<close>: a call is recorded with the
  list of arguments written at the call site. The result is the warnings logged and
  the calls made on the flusher.
\<close>

datatype flusher_call = Call_incrementSessionStatusCount "RequestSessionStatus list"

definition discarded_session_warning :: string where
  "discarded_session_warning =
     ''Discarded request mode session because autoSessionTracking option was disabled''"

definition captureRequestSession :: "'t NodeClient \<Rightarrow> string list \<times> flusher_call list" where
  "captureRequestSession c =
     (case sessionFlusher c of
        None \<Rightarrow> ([discarded_session_warning], [])
      | Some f \<Rightarrow> ([], [Call_incrementSessionStatusCount []]))"

text \<open>
  A sequence of capture calls against one scope: each call is either
  \<open>captureException\<close> or \<open>captureEvent\<close>, its hint included; \<open>capture_call\<close> gives the
  scope after one call and \<open>capture_trace\<close> the scopes after each call of a sequence.
\<close>

datatype ('e, 'ev, 'h) capture = CaptureException 'e "'h option" | CaptureEvent 'ev "'h option"

fun capture_call ::
  "'t NodeClient \<Rightarrow> ('e, ('x, 'b) Event_scheme, 'h) capture \<Rightarrow> 'a Scope_scheme \<Rightarrow> 'a Scope_scheme"
where
  "capture_call c (CaptureException exc hint) scope =
     (case snd (captureException (\<lambda>_ _ _. ()) c exc hint (Some scope)) of
        Some scope' \<Rightarrow> scope' | None \<Rightarrow> scope)"
| "capture_call c (CaptureEvent event hint) scope =
     (case snd (captureEvent (\<lambda>_ _ _. ()) c event hint (Some scope)) of
        Some scope' \<Rightarrow> scope' | None \<Rightarrow> scope)"

fun capture_trace ::
  "'t NodeClient \<Rightarrow> ('e, ('x, 'b) Event_scheme, 'h) capture list \<Rightarrow> 'a Scope_scheme \<Rightarrow>
     'a Scope_scheme list"
where
  "capture_trace c [] scope = []"
| "capture_trace c (call # calls) scope =
     (let scope' = capture_call c call scope in scope' # capture_trace c calls scope')"

section \<open>The sampler\<close>

text \<open>
  Modelled from the spec: the sampling engine behind \<open>Hub.startTransaction\<close> is
  exercised by the tracing tests, but its source (the hub extensions of the tracing
  package) is not among the sources. The model follows section 4.2 of the
  specification, step by step, and takes the two warning texts from the tests of
  \<open>isValidSampleRate()\<close>.

  A value a configuration or a custom sampler can supply is a JavaScript value; a number
  is a real, \<open>NaN\<close> or an infinity. The value of \<open>random()\<close> is a parameter.
\<close>

datatype js_value =
  JSBoolean bool | JSNumber real | JSNaN | JSPosInfinity | JSNegInfinity
  | JSString string | JSUndefined | JSNull

datatype TransactionSamplingMethod = Explicit | Sampler | Rate | Inheritance

record TransactionContext =
  name :: string
  parentSpanId :: "string option"
  parentSampled :: "bool option"
  sampled :: "bool option"

record Transaction = TransactionContext +
  transactionSampling :: "(TransactionSamplingMethod \<times> real option) option"

record 'c SamplingConfig =
  tracesSampleRate :: "js_value option"
  tracesSampler :: "(TransactionContext \<Rightarrow> 'c option \<Rightarrow> js_value) option"

record SamplingDecision =
  decision :: bool
  samplingMethod :: "TransactionSamplingMethod option"
  samplingRate :: "real option"

definition type_warning :: string where
  "type_warning = ''Sample rate must be a boolean or a number''"

definition range_warning :: string where
  "range_warning = ''Sample rate must be between 0 and 1''"

text \<open>
  Modelled from the spec: the validation rule of step 6 of the absent sampler: a boolean is the rate 1 or 0; a value that is neither a
  boolean nor a number, and \<open>NaN\<close>, is rejected with the warning about the type; a
  number outside \<open>[0, 1]\<close> is rejected with the warning about the bounds.
\<close>

fun validSampleRate :: "js_value \<Rightarrow> string + real" where
  "validSampleRate (JSBoolean b) = Inr (if b then 1 else 0)"
| "validSampleRate (JSNumber r) = (if r < 0 \<or> 1 < r then Inl range_warning else Inr r)"
| "validSampleRate JSPosInfinity = Inl range_warning"
| "validSampleRate JSNegInfinity = Inl range_warning"
| "validSampleRate JSNaN = Inl type_warning"
| "validSampleRate (JSString s) = Inl type_warning"
| "validSampleRate JSUndefined = Inl type_warning"
| "validSampleRate JSNull = Inl type_warning"

text \<open>
  Modelled from the spec: steps 3 and 5 of the absent sampler after the value is known: an invalid value logs its warning and forces
  the decision \<open>false\<close>; a valid rate is recorded with its method, and the decision is
  \<open>random() < rate\<close>, a rate of exactly 1 or 0 giving \<open>true\<close> or \<open>false\<close> at once.
\<close>

definition sample_by_rate ::
  "TransactionSamplingMethod \<Rightarrow> js_value \<Rightarrow> real \<Rightarrow> SamplingDecision \<times> string list"
where
  "sample_by_rate m v rnd =
     (case validSampleRate v of
        Inl w \<Rightarrow> (\<lparr>decision = False, samplingMethod = None, samplingRate = None\<rparr>, [w])
      | Inr r \<Rightarrow>
          (\<lparr>decision = (if r = 1 then True else if r = 0 then False else rnd < r),
            samplingMethod = Some m, samplingRate = Some r\<rparr>, []))"

text \<open>
  Modelled from the spec: \<open>decideSampling\<close> of the absent sampler, steps 1 to 5 in
  their order. The last branch, a static rate path without a rate, is excluded by the
  test of step 2 and is there for totality.
\<close>

definition decideSampling ::
  "TransactionContext \<Rightarrow> 'c SamplingConfig \<Rightarrow> 'c option \<Rightarrow> real \<Rightarrow> SamplingDecision \<times> string list"
where
  "decideSampling ctx cfg custom rnd =
     (case sampled ctx of
        Some b \<Rightarrow> (\<lparr>decision = b, samplingMethod = Some Explicit, samplingRate = None\<rparr>, [])
      | None \<Rightarrow>
          if tracesSampleRate cfg = None \<and> tracesSampler cfg = None
          then (\<lparr>decision = False, samplingMethod = None, samplingRate = None\<rparr>, [])
          else
            (case tracesSampler cfg of
               Some f \<Rightarrow> sample_by_rate Sampler (f ctx custom) rnd
             | None \<Rightarrow>
                 (case parentSampled ctx of
                    Some p \<Rightarrow>
                      (\<lparr>decision = p, samplingMethod = Some Inheritance, samplingRate = None\<rparr>, [])
                  | None \<Rightarrow>
                      (case tracesSampleRate cfg of
                         Some v \<Rightarrow> sample_by_rate Rate v rnd
                       | None \<Rightarrow>
                           (\<lparr>decision = False, samplingMethod = None, samplingRate = None\<rparr>, [])))))"

text \<open>
  Modelled from the spec: \<open>startTransaction(context, customSamplingContext?)\<close> of the
  absent hub: the transaction produced carries
  the context, the decision as its \<open>sampled\<close> value and the method and rate as its
  sampling metadata; the warnings logged come with it.
\<close>

definition startTransaction ::
  "'c SamplingConfig \<Rightarrow> TransactionContext \<Rightarrow> 'c option \<Rightarrow> real \<Rightarrow> Transaction \<times> string list"
where
  "startTransaction cfg ctx custom rnd =
     (case decideSampling ctx cfg custom rnd of
        (d, warnings) \<Rightarrow>
          (\<lparr>name = name ctx, parentSpanId = parentSpanId ctx, parentSampled = parentSampled ctx,
            sampled = Some (decision d),
            transactionSampling =
              (case samplingMethod d of None \<Rightarrow> None | Some m \<Rightarrow> Some (m, samplingRate d))\<rparr>,
           warnings))"

text \<open>
  The two ways a value fails the validation, in the words of the specification: it has
  the wrong type (not a boolean and not a number, \<open>NaN\<close> included), or it is a number
  out of the bounds \<open>[0, 1]\<close>.
\<close>

fun wrong_type :: "js_value \<Rightarrow> bool" where
  "wrong_type (JSBoolean b) = False"
| "wrong_type (JSNumber r) = False"
| "wrong_type JSPosInfinity = False"
| "wrong_type JSNegInfinity = False"
| "wrong_type v = True"

fun out_of_bounds :: "js_value \<Rightarrow> bool" where
  "out_of_bounds (JSNumber r) = (r < 0 \<or> 1 < r)"
| "out_of_bounds JSPosInfinity = True"
| "out_of_bounds JSNegInfinity = True"
| "out_of_bounds v = False"

section \<open>Inputs of the tests\<close>

text \<open>
  The clients, scopes and events the tests of the Node client build: a client with
  \<open>autoSessionTracking: true\<close> and a release, before and after
  \<open>initSessionFlusher()\<close>; the same with \<open>autoSessionTracking: false\<close>; a client
  without a release; \<open>new Scope()\<close> followed by \<open>setRequestSession({ status })\<close>; an
  event with one exception value, an event with a message only and a transaction event.
\<close>

definition tracking_options :: NodeOptions where
  "tracking_options =
     \<lparr>autoSessionTracking = Some True, release = Some ''1.4'', environment = None,
      serverName = None\<rparr>"

definition client_without_handler :: "unit NodeClient" where
  "client_without_handler = new_NodeClient tracking_options ()"

definition tracking_client :: "unit NodeClient" where
  "tracking_client = fst (initSessionFlusher (new_NodeClient tracking_options ()))"

definition disabled_client :: "unit NodeClient" where
  "disabled_client =
     fst (initSessionFlusher
            (new_NodeClient (tracking_options\<lparr>autoSessionTracking := Some False\<rparr>) ()))"

definition client_without_release :: "unit NodeClient" where
  "client_without_release = new_NodeClient (tracking_options\<lparr>release := None\<rparr>) ()"

text \<open>
  The constructor keeps the options object of its caller, who can still assign to it:
  this is the client of the tests after \<open>initSessionFlusher()\<close>, once the caller has
  removed the release from the options.
\<close>

definition client_release_removed :: "unit NodeClient" where
  "client_release_removed =
     tracking_client\<lparr>options := (options tracking_client)\<lparr>release := None\<rparr>\<rparr>"

definition new_Scope :: Scope where
  "new_Scope = \<lparr>requestSession = None\<rparr>"

definition scope_with :: "RequestSessionStatus \<Rightarrow> Scope" where
  "scope_with st = setRequestSession (Some \<lparr>status = st\<rparr>) new_Scope"

definition exception_event :: "string Event" where
  "exception_event =
     \<lparr>message = Some ''message'', event_type = None,
      exception = Some \<lparr>exception_values = Some [''exception type 1'']\<rparr>\<rparr>"

definition message_event :: "string Event" where
  "message_event = \<lparr>message = Some ''message'', event_type = None, exception = None\<rparr>"

definition transaction_event :: "string Event" where
  "transaction_event =
     \<lparr>message = Some ''message'', event_type = Some ''transaction'', exception = None\<rparr>"

definition empty_exception_event :: "string Event" where
  "empty_exception_event =
     \<lparr>message = Some ''message'', event_type = Some ''exception'',
      exception = Some \<lparr>exception_values = Some []\<rparr>\<rparr>"

text \<open>The base capture paths and the base \<open>close\<close> of the witnesses: fixed return values.\<close>

definition base_capture :: "'i \<Rightarrow> unit option \<Rightarrow> Scope option \<Rightarrow> string option" where
  "base_capture x hint scope = Some ''event-id''"

definition base_close :: "nat option \<Rightarrow> unit NodeClient \<Rightarrow> bool" where
  "base_close timeout c = True"

text \<open>
  The client of the test of \<open>close\<close>, whose periodic timer has been cleared, and a
  client whose flusher holds the scenario of the specification: three \<open>Errored\<close>
  sessions and one \<open>Ok\<close> session counted within one minute, the timer cleared.
\<close>

definition client_timer_cleared :: "unit NodeClient" where
  "client_timer_cleared =
     tracking_client\<lparr>sessionFlusher :=
       map_option (\<lambda>f. f\<lparr>intervalRunning := False\<rparr>) (sessionFlusher tracking_client)\<rparr>"

definition counting_flusher :: "unit SessionFlusher" where
  "counting_flusher =
     fold (\<lambda>st f. fst (incrementSessionStatusCount st 90 f)) [Errored, Errored, Errored, Ok]
       ((new_SessionFlusher () ''1.4'' None)\<lparr>intervalRunning := False\<rparr>)"

definition counting_client :: "unit NodeClient" where
  "counting_client = tracking_client\<lparr>sessionFlusher := Some counting_flusher\<rparr>"

text \<open>
  The inputs of the tracing tests: the context \<open>{ name: 'dogpark' }\<close>, a client with
  neither \<open>tracesSampleRate\<close> nor \<open>tracesSampler\<close>, one with a \<open>tracesSampleRate\<close>
  only, and one whose \<open>tracesSampler\<close> is a mock that returns a fixed value.
\<close>

definition dogpark :: TransactionContext where
  "dogpark = \<lparr>name = ''dogpark'', parentSpanId = None, parentSampled = None, sampled = None\<rparr>"

definition tracing_disabled :: "unit SamplingConfig" where
  "tracing_disabled = \<lparr>tracesSampleRate = None, tracesSampler = None\<rparr>"

definition rate_config :: "js_value \<Rightarrow> unit SamplingConfig" where
  "rate_config v = \<lparr>tracesSampleRate = Some v, tracesSampler = None\<rparr>"

definition sampler_config :: "js_value \<Rightarrow> unit SamplingConfig" where
  "sampler_config v = \<lparr>tracesSampleRate = None, tracesSampler = Some (\<lambda>ctx custom. v)\<rparr>"

section \<open>Helper facts\<close>

lemmas test_inputs =
  tracking_options_def client_without_handler_def tracking_client_def disabled_client_def
  client_without_release_def client_release_removed_def new_Scope_def scope_with_def exception_event_def
  message_event_def transaction_event_def empty_exception_event_def base_capture_def
  base_close_def client_timer_cleared_def counting_flusher_def counting_client_def

lemmas client_defs =
  new_NodeClient_def initSessionFlusher_def new_SessionFlusher_def tracking_active_def
  captureException_def captureEvent_def mark_errored_def getRequestSession_def
  setRequestSession_def requestStatus_def eventType_def isException_def Let_def

lemma requestStatus_mark_errored:
  "requestStatus (Some (mark_errored s)) =
     (if requestStatus (Some s) = Some Ok then Some Errored else requestStatus (Some s))"
  by (simp add: requestStatus_def mark_errored_def getRequestSession_def split: option.splits)

lemma mark_errored_unchanged:
  "requestStatus (Some s) \<noteq> Some Ok \<Longrightarrow> mark_errored s = s"
  by (simp add: requestStatus_def mark_errored_def getRequestSession_def split: option.splits)

lemma mark_errored_more: "Scope.more (mark_errored s) = Scope.more s"
  by (simp add: mark_errored_def split: option.splits)

lemma requestStatus_None: "requestStatus None = None"
  by (simp add: requestStatus_def)

lemma capture_call_unchanged:
  "requestStatus (Some scope) \<noteq> Some Ok \<Longrightarrow> capture_call c call scope = scope"
  by (cases call)
     (auto simp: captureException_def captureEvent_def Let_def mark_errored_unchanged)

lemma capture_trace_unchanged:
  "requestStatus (Some scope) \<noteq> Some Ok \<Longrightarrow> s \<in> set (capture_trace c calls scope) \<Longrightarrow> s = scope"
  by (induction calls) (auto simp: Let_def capture_call_unchanged)

lemma length_capture_trace: "length (capture_trace c calls scope) = length calls"
  by (induction calls arbitrary: scope) (auto simp: Let_def)

lemma capture_call_cases:
  "capture_call c call scope = scope \<or> capture_call c call scope = mark_errored scope"
  by (cases call) (auto simp: captureException_def captureEvent_def Let_def)

section \<open>Request-session status in the capture path\<close>

text \<open>
  Claim C1. \<open>captureException\<close> hands to the base capture path the scope it has
  updated, and returns what the base path returns. When \<open>autoSessionTracking\<close> is
  true, a session flusher is set, a scope is supplied and its request session has the
  status \<open>Ok\<close>, the status handed over is \<open>Errored\<close> and nothing else in the scope has
  changed; in every other case the scope is handed over as it came. So the status
  changes exactly under that condition.
\<close>

theorem captureException_transition:
  assumes "captureException super_captureException c exc hint scope = (r, scope')"
  shows "r = super_captureException exc hint scope' \<and>
         (truthy_bool (autoSessionTracking (options c)) \<and> sessionFlusher c \<noteq> None \<and>
           requestStatus scope = Some Ok
         \<longrightarrow> requestStatus scope' = Some Errored \<and>
             map_option Scope.more scope' = map_option Scope.more scope) \<and>
         (\<not> (truthy_bool (autoSessionTracking (options c)) \<and> sessionFlusher c \<noteq> None \<and>
           requestStatus scope = Some Ok)
         \<longrightarrow> scope' = scope) \<and>
         (requestStatus scope' \<noteq> requestStatus scope \<longleftrightarrow>
           truthy_bool (autoSessionTracking (options c)) \<and> sessionFlusher c \<noteq> None \<and>
           requestStatus scope = Some Ok)"
proof (cases scope)
  case None
  with assms show ?thesis
    by (auto simp: captureException_def Let_def requestStatus_None)
next
  case (Some s)
  show ?thesis
  proof (cases "tracking_active c scope")
    case True
    with assms Some show ?thesis
      by (auto simp: captureException_def Let_def tracking_active_def
            requestStatus_mark_errored mark_errored_more mark_errored_unchanged
            split: if_splits)
  next
    case False
    with assms Some show ?thesis
      by (auto simp: captureException_def Let_def tracking_active_def)
  qed
qed

theorem captureException_transition_witness:
  "captureException base_capture tracking_client ''test exception'' None (Some (scope_with Ok))
     = (Some ''event-id'', Some (scope_with Errored)) \<and>
   captureException base_capture tracking_client ''test exception'' None (Some (scope_with Crashed))
     = (Some ''event-id'', Some (scope_with Crashed)) \<and>
   captureException base_capture client_without_handler ''test exception'' None (Some (scope_with Ok))
     = (Some ''event-id'', Some (scope_with Ok)) \<and>
   captureException base_capture disabled_client ''test exception'' None (Some (scope_with Ok))
     = (Some ''event-id'', Some (scope_with Ok)) \<and>
   captureException base_capture tracking_client ''test exception'' None (Some new_Scope)
     = (Some ''event-id'', Some new_Scope) \<and>
   requestStatus (Some (scope_with Errored)) = Some Errored"
proof -
  have run: "captureException base_capture tracking_client ''test exception'' None
               (Some (scope_with Ok)) = (Some ''event-id'', Some (scope_with Errored))"
    by (simp add: test_inputs client_defs)
  have cond: "truthy_bool (autoSessionTracking (options tracking_client)) \<and>
              sessionFlusher tracking_client \<noteq> None \<and>
              requestStatus (Some (scope_with Ok)) = Some Ok"
    by (simp add: test_inputs client_defs)
  have errored: "requestStatus (Some (scope_with Errored)) = Some Errored"
    using captureException_transition [OF run] cond by blast
  show ?thesis
    using run errored by (simp add: test_inputs client_defs)
qed

text \<open>
  Claim C2. Against a scope whose request session has a status other than \<open>Ok\<close>, a
  sequence of \<open>captureException\<close> and \<open>captureEvent\<close> calls leaves the status after
  each call what it was before the first. And whenever one capture call changes the
  status of a scope, the status was \<open>Ok\<close> and has become \<open>Errored\<close>.
\<close>

theorem capture_never_changes_non_Ok:
  "(requestStatus (Some scope) = Some st \<and> st \<noteq> Ok \<longrightarrow>
      length (capture_trace c calls scope) = length calls \<and>
      (\<forall>s \<in> set (capture_trace c calls scope). requestStatus (Some s) = Some st)) \<and>
   (requestStatus (Some (capture_call c call scope)) \<noteq> requestStatus (Some scope) \<longrightarrow>
      requestStatus (Some scope) = Some Ok \<and>
      requestStatus (Some (capture_call c call scope)) = Some Errored)"
proof (intro conjI impI)
  assume "requestStatus (Some scope) = Some st \<and> st \<noteq> Ok"
  then have st: "requestStatus (Some scope) = Some st" and "requestStatus (Some scope) \<noteq> Some Ok"
    by auto
  then show "\<forall>s \<in> set (capture_trace c calls scope). requestStatus (Some s) = Some st"
    using capture_trace_unchanged [of scope _ c calls] by auto
next
  show "length (capture_trace c calls scope) = length calls"
    by (rule length_capture_trace)
next
  assume changed: "requestStatus (Some (capture_call c call scope)) \<noteq> requestStatus (Some scope)"
  then have "capture_call c call scope = mark_errored scope"
    using capture_call_cases [of c call scope] by auto
  with changed have *: "requestStatus (Some (mark_errored scope)) \<noteq> requestStatus (Some scope)"
    by simp
  then show "requestStatus (Some scope) = Some Ok"
    by (simp add: requestStatus_mark_errored split: if_splits)
  with \<open>capture_call c call scope = mark_errored scope\<close>
  show "requestStatus (Some (capture_call c call scope)) = Some Errored"
    by (simp add: requestStatus_mark_errored)
qed

theorem capture_never_changes_non_Ok_witness:
  "requestStatus (Some (scope_with Crashed)) = Some Crashed \<and> Crashed \<noteq> Ok \<and>
   capture_trace tracking_client
     [CaptureException ''test exception'' None, CaptureEvent exception_event (None :: unit option)]
     (scope_with Crashed) = [scope_with Crashed, scope_with Crashed] \<and>
   requestStatus (Some (capture_call tracking_client
       (CaptureEvent exception_event (None :: unit option)) (scope_with Ok))) = Some Errored"
proof -
  have pre: "requestStatus (Some (scope_with Crashed)) = Some Crashed \<and> Crashed \<noteq> Ok"
    by (simp add: test_inputs client_defs)
  have changed: "requestStatus (Some (capture_call tracking_client
       (CaptureEvent exception_event (None :: unit option)) (scope_with Ok)))
       \<noteq> requestStatus (Some (scope_with Ok))"
    by (simp add: test_inputs client_defs)
  note inst1 = capture_never_changes_non_Ok [of "scope_with Crashed" Crashed tracking_client
      "[CaptureException ''test exception'' None, CaptureEvent exception_event (None :: unit option)]"]
  note inst2 = capture_never_changes_non_Ok [of "scope_with Ok" Ok tracking_client
      "[]" "CaptureEvent exception_event (None :: unit option)"]
  have "requestStatus (Some (capture_call tracking_client
       (CaptureEvent exception_event (None :: unit option)) (scope_with Ok))) = Some Errored"
    using inst2 changed by blast
  moreover have "capture_trace tracking_client
     [CaptureException ''test exception'' None, CaptureEvent exception_event (None :: unit option)]
     (scope_with Crashed) = [scope_with Crashed, scope_with Crashed]"
    by (simp add: test_inputs client_defs)
  ultimately show ?thesis using pre inst1 by simp
qed

lemma isException_iff:
  "isException event \<longleftrightarrow>
     (event_type event = None \<or> event_type event = Some [] \<or> event_type event = Some ''exception'') \<and>
     (\<exists>ex vs. exception event = Some ex \<and> exception_values ex = Some vs \<and> vs \<noteq> [])"
  by (cases "event_type event")
     (auto simp: isException_def eventType_def split: option.splits)

lemma captureEvent_active:
  "truthy_bool (autoSessionTracking (options c)) \<Longrightarrow> sessionFlusher c \<noteq> None \<Longrightarrow>
   snd (captureEvent super_captureEvent c event hint (Some scope)) =
     (if isException event then Some (mark_errored scope) else Some scope)"
  by (simp add: captureEvent_def Let_def tracking_active_def)

text \<open>
  Claim C3. With session tracking enabled, a session flusher set and a scope whose
  request session has the status \<open>Ok\<close>, \<open>captureEvent\<close> hands the scope over with
  the status \<open>Errored\<close> exactly when the event type is \<open>'exception'\<close> (or absent or
  empty, which defaults to it) and the event has an exception with a non-empty list of
  values. Otherwise the scope is handed over unchanged: so for an event typed
  \<open>'transaction'\<close>, for an event without an exception, and for an exception whose
  values are absent or empty.
\<close>

theorem captureEvent_transition:
  assumes "truthy_bool (autoSessionTracking (options c))"
    and "sessionFlusher c \<noteq> None"
    and "requestStatus (Some scope) = Some Ok"
    and "captureEvent super_captureEvent c event hint (Some scope) = (r, scope')"
  shows "(requestStatus scope' = Some Errored \<longleftrightarrow>
            (event_type event = None \<or> event_type event = Some [] \<or>
             event_type event = Some ''exception'') \<and>
            (\<exists>ex vs. exception event = Some ex \<and> exception_values ex = Some vs \<and> vs \<noteq> [])) \<and>
         (requestStatus scope' \<noteq> Some Errored \<longrightarrow> scope' = Some scope) \<and>
         (event_type event = Some ''transaction'' \<longrightarrow> scope' = Some scope) \<and>
         (exception event = None \<longrightarrow> scope' = Some scope) \<and>
         (\<forall>ex. exception event = Some ex \<and>
               (exception_values ex = None \<or> exception_values ex = Some [])
               \<longrightarrow> scope' = Some scope) \<and>
         r = super_captureEvent event hint scope'"
proof -
  have scope': "scope' = (if isException event then Some (mark_errored scope) else Some scope)"
    using captureEvent_active [OF assms(1,2), of super_captureEvent event hint scope] assms(4)
    by simp
  have r: "r = super_captureEvent event hint scope'"
    using assms(4) by (auto simp: captureEvent_def Let_def)
  have st: "requestStatus scope' = Some Errored \<longleftrightarrow> isException event"
    using scope' assms(3) by (simp add: requestStatus_mark_errored)
  show ?thesis
    using scope' r st by (auto simp: isException_iff)
qed

theorem captureEvent_transition_witness:
  "truthy_bool (autoSessionTracking (options tracking_client)) \<and>
   sessionFlusher tracking_client \<noteq> None \<and>
   requestStatus (Some (scope_with Ok)) = Some Ok \<and>
   captureEvent base_capture tracking_client exception_event None (Some (scope_with Ok))
     = (Some ''event-id'', Some (scope_with Errored)) \<and>
   requestStatus (Some (scope_with Errored)) = Some Errored \<and>
   captureEvent base_capture tracking_client transaction_event None (Some (scope_with Ok))
     = (Some ''event-id'', Some (scope_with Ok)) \<and>
   captureEvent base_capture tracking_client message_event None (Some (scope_with Ok))
     = (Some ''event-id'', Some (scope_with Ok)) \<and>
   captureEvent base_capture tracking_client empty_exception_event None (Some (scope_with Ok))
     = (Some ''event-id'', Some (scope_with Ok))"
proof -
  have a: "truthy_bool (autoSessionTracking (options tracking_client))"
    and b: "sessionFlusher tracking_client \<noteq> None"
    and c: "requestStatus (Some (scope_with Ok)) = Some Ok"
    by (simp_all add: test_inputs client_defs)
  have run: "captureEvent base_capture tracking_client exception_event None (Some (scope_with Ok))
     = (Some ''event-id'', Some (scope_with Errored))"
    by (simp add: test_inputs client_defs)
  have ev: "event_type exception_event = None \<and>
            exception exception_event = Some \<lparr>exception_values = Some [''exception type 1'']\<rparr>"
    by (simp add: test_inputs)
  have errored: "requestStatus (Some (scope_with Errored)) = Some Errored"
    using captureEvent_transition [OF a b c run] ev by simp
  have others:
    "captureEvent base_capture tracking_client transaction_event None (Some (scope_with Ok))
       = (Some ''event-id'', Some (scope_with Ok))"
    "captureEvent base_capture tracking_client message_event None (Some (scope_with Ok))
       = (Some ''event-id'', Some (scope_with Ok))"
    "captureEvent base_capture tracking_client empty_exception_event None (Some (scope_with Ok))
       = (Some ''event-id'', Some (scope_with Ok))"
    by (simp_all add: test_inputs client_defs)
  show ?thesis
    using a b c run errored others by simp
qed

text \<open>
  Claim C10. An event whose type is absent (undefined or the empty string) is
  classified as an exception event: with session tracking enabled, a session flusher
  set, a scope whose request session is \<open>Ok\<close> and a non-empty list of exception
  values, \<open>captureEvent\<close> sets the status to \<open>Errored\<close>.
\<close>

theorem captureEvent_default_type:
  assumes "event_type event = None \<or> event_type event = Some []"
    and "truthy_bool (autoSessionTracking (options c))"
    and "sessionFlusher c \<noteq> None"
    and "requestStatus (Some scope) = Some Ok"
    and "exception event = Some ex" and "exception_values ex = Some vs" and "vs \<noteq> []"
  shows "eventType event = ''exception'' \<and> isException event \<and>
         requestStatus (snd (captureEvent super_captureEvent c event hint (Some scope)))
           = Some Errored"
proof -
  have ty: "eventType event = ''exception''"
    using assms(1) by (auto simp: eventType_def)
  have ex: "isException event"
    using assms(1,5,6,7) by (auto simp: isException_iff)
  show ?thesis
    using ty ex assms(4) captureEvent_active [OF assms(2,3), of super_captureEvent event hint scope]
    by (simp add: requestStatus_mark_errored)
qed

theorem captureEvent_default_type_witness:
  "event_type exception_event = None \<and>
   truthy_bool (autoSessionTracking (options tracking_client)) \<and>
   sessionFlusher tracking_client \<noteq> None \<and>
   requestStatus (Some (scope_with Ok)) = Some Ok \<and>
   exception exception_event = Some \<lparr>exception_values = Some [''exception type 1'']\<rparr> \<and>
   requestStatus (snd (captureEvent base_capture tracking_client exception_event None
                         (Some (scope_with Ok)))) = Some Errored"
proof -
  have a: "event_type exception_event = None \<or> event_type exception_event = Some []"
    and a': "event_type exception_event = None"
    and b: "truthy_bool (autoSessionTracking (options tracking_client))"
    and c: "sessionFlusher tracking_client \<noteq> None"
    and d: "requestStatus (Some (scope_with Ok)) = Some Ok"
    and e: "exception exception_event = Some \<lparr>exception_values = Some [''exception type 1'']\<rparr>"
    by (simp_all add: test_inputs client_defs)
  have f: "exception_values \<lparr>exception_values = Some [''exception type 1'']\<rparr>
             = Some [''exception type 1'']"
    and g: "[''exception type 1''] \<noteq> []"
    by simp_all
  show ?thesis
    using captureEvent_default_type [OF a b c d e f g, of base_capture None] a' b c d e
    by simp
qed

section \<open>Reporting the request session\<close>

text \<open>
  Claim C4 as stated has the flusher called with the final status of the scope as
  argument. The call of \<open>_captureRequestSession\<close> passes no argument: for the client
  of the tests with its flusher set, and a scope whose request session is \<open>Errored\<close>,
  the call recorded is not one with the argument \<open>Errored\<close>.
\<close>

theorem captureRequestSession_status_argument_counterexample:
  "sessionFlusher tracking_client \<noteq> None \<and>
   requestStatus (Some (scope_with Errored)) = Some Errored \<and>
   captureRequestSession tracking_client = ([], [Call_incrementSessionStatusCount []]) \<and>
   snd (captureRequestSession tracking_client) \<noteq> [Call_incrementSessionStatusCount [Errored]]"
  by (simp add: test_inputs client_defs captureRequestSession_def)

text \<open>
  Claim C4, amended. When the client has no session flusher, \<open>_captureRequestSession\<close>
  logs the warning that the session is discarded and calls nothing; otherwise it logs
  nothing and makes exactly one call, \<open>incrementSessionStatusCount\<close> on the flusher,
  with no argument.
\<close>

theorem captureRequestSession_calls:
  "(sessionFlusher c = None \<longrightarrow>
      captureRequestSession c = ([discarded_session_warning], [])) \<and>
   (sessionFlusher c \<noteq> None \<longrightarrow>
      captureRequestSession c = ([], [Call_incrementSessionStatusCount []]))"
  by (cases "sessionFlusher c") (simp_all add: captureRequestSession_def)

theorem captureRequestSession_calls_witness:
  "sessionFlusher client_without_handler = None \<and>
   captureRequestSession client_without_handler = ([discarded_session_warning], []) \<and>
   sessionFlusher tracking_client \<noteq> None \<and>
   captureRequestSession tracking_client = ([], [Call_incrementSessionStatusCount []])"
proof -
  have a: "sessionFlusher client_without_handler = None"
    and b: "sessionFlusher tracking_client \<noteq> None"
    by (simp_all add: test_inputs client_defs)
  show ?thesis
    using a b captureRequestSession_calls [of client_without_handler]
      captureRequestSession_calls [of tracking_client]
    by simp
qed

section \<open>Closing the client\<close>

lemma flush_fields:
  "flushCalls (flush f) = Suc (flushCalls f)"
  "pendingAggregates (flush f) = []"
  "isEnabled (flush f) = isEnabled f"
  "intervalRunning (flush f) = intervalRunning f"
  "sent (flush f) =
     (if pendingAggregates f = [] then sent f
      else sent f @ [\<lparr>attrs_release = flusher_release f,
                       attrs_environment = flusher_environment f,
                       aggregates = pendingAggregates f\<rparr>])"
  by (simp_all add: flush_def Let_def)

lemma SessionFlusher_close_fields:
  "flushCalls (SessionFlusher_close f) = Suc (flushCalls f)"
  "pendingAggregates (SessionFlusher_close f) = []"
  "\<not> isEnabled (SessionFlusher_close f)"
  "\<not> intervalRunning (SessionFlusher_close f)"
  "sent (SessionFlusher_close f) =
     (if pendingAggregates f = [] then sent f
      else sent f @ [\<lparr>attrs_release = flusher_release f,
                       attrs_environment = flusher_environment f,
                       aggregates = pendingAggregates f\<rparr>])"
  by (simp_all add: SessionFlusher_close_def flush_fields)

text \<open>
  Claim C5. For a client with a session flusher, \<open>close\<close> closes the flusher first and
  hands the client with the closed flusher to the base \<open>close\<close>, whose result it
  returns. The closed flusher is disabled, its timer is cancelled, it has had exactly
  one more call of \<open>flush\<close> than before, whether or not the timer was running, its
  table is empty, the pending buckets have been sent as one payload, and every later
  increment is ignored with a warning.
\<close>

theorem close_flushes_once:
  assumes "sessionFlusher c = Some f"
    and "close super_close timeout c = (r, c')"
  shows "r = super_close timeout c' \<and>
         options c' = options c \<and>
         sessionFlusher c' = Some (SessionFlusher_close f) \<and>
         \<not> isEnabled (SessionFlusher_close f) \<and>
         \<not> intervalRunning (SessionFlusher_close f) \<and>
         flushCalls (SessionFlusher_close f) = flushCalls f + 1 \<and>
         pendingAggregates (SessionFlusher_close f) = [] \<and>
         sent (SessionFlusher_close f) =
           (if pendingAggregates f = [] then sent f
            else sent f @ [\<lparr>attrs_release = flusher_release f,
                             attrs_environment = flusher_environment f,
                             aggregates = pendingAggregates f\<rparr>]) \<and>
         (\<forall>st timestamp.
            incrementSessionStatusCount st timestamp (SessionFlusher_close f)
              = (SessionFlusher_close f, [flusher_closed_warning]))"
proof -
  have c': "c' = close_sessionFlusher c" and r: "r = super_close timeout c'"
    using assms(2) by (auto simp: close_def Let_def)
  have "sessionFlusher c' = Some (SessionFlusher_close f)" "options c' = options c"
    using c' assms(1) by (simp_all add: close_sessionFlusher_def)
  moreover have "\<forall>st timestamp.
            incrementSessionStatusCount st timestamp (SessionFlusher_close f)
              = (SessionFlusher_close f, [flusher_closed_warning])"
    by (simp add: incrementSessionStatusCount_def SessionFlusher_close_fields)
  ultimately show ?thesis
    using r by (simp add: SessionFlusher_close_fields)
qed


theorem close_flushes_once_witness:
  "sessionFlusher counting_client = Some counting_flusher \<and>
   \<not> intervalRunning counting_flusher \<and>
   flushCalls counting_flusher = 0 \<and>
   close base_close (Some 1) counting_client = (True, close_sessionFlusher counting_client) \<and>
   sessionFlusher (close_sessionFlusher counting_client)
     = Some (SessionFlusher_close counting_flusher) \<and>
   \<not> isEnabled (SessionFlusher_close counting_flusher) \<and>
   flushCalls (SessionFlusher_close counting_flusher) = 1 \<and>
   sent (SessionFlusher_close counting_flusher) =
     [\<lparr>attrs_release = ''1.4'', attrs_environment = None,
       aggregates = [(60, \<lparr>exited = 1, errored = 3, crashed = 0, abnormal = 0\<rparr>)]\<rparr>]"
proof -
  have a: "sessionFlusher counting_client = Some counting_flusher"
    by (simp add: counting_client_def)
  have run: "close base_close (Some 1) counting_client
               = (True, close_sessionFlusher counting_client)"
    by (simp add: close_def Let_def base_close_def)
  have pending: "pendingAggregates counting_flusher
                   = [(60, \<lparr>exited = 1, errored = 3, crashed = 0, abnormal = 0\<rparr>)]"
    and calls: "flushCalls counting_flusher = 0"
    and timer: "\<not> intervalRunning counting_flusher"
    and sent0: "sent counting_flusher = []"
    and rel: "flusher_release counting_flusher = ''1.4''"
    and env: "flusher_environment counting_flusher = None"
    by (simp_all add: counting_flusher_def new_SessionFlusher_def
          incrementSessionStatusCount_def empty_counts_def)
  show ?thesis
    using close_flushes_once [OF a run] a run pending calls timer sent0 rel env
    by simp
qed

section \<open>Initialising the session flusher\<close>

text \<open>
  Claim C9 as stated has every client without a release left without a session
  flusher by \<open>initSessionFlusher\<close>. The branch without a release only warns: a client
  that holds a flusher and whose release has been removed from its options keeps the
  flusher, a later \<open>captureException\<close> sets the status \<open>Ok\<close> to \<open>Errored\<close>, and
  \<open>_captureRequestSession\<close> calls the flusher instead of discarding the session.
\<close>

theorem initSessionFlusher_keeps_flusher_counterexample:
  "release (options client_release_removed) = None \<and>
   initSessionFlusher client_release_removed = (client_release_removed, [no_release_warning]) \<and>
   sessionFlusher (fst (initSessionFlusher client_release_removed))
     = Some (new_SessionFlusher () ''1.4'' None) \<and>
   snd (captureException base_capture (fst (initSessionFlusher client_release_removed))
          ''test exception'' None (Some (scope_with Ok))) = Some (scope_with Errored) \<and>
   captureRequestSession (fst (initSessionFlusher client_release_removed))
     = ([], [Call_incrementSessionStatusCount []])"
  by (simp add: test_inputs client_defs captureRequestSession_def)

text \<open>
  Claim C9, amended. For a client whose release is absent (or empty),
  \<open>initSessionFlusher\<close> returns with one warning logged and the client as it was, its
  session flusher included. So a client that had no session flusher still has none: a
  capture call on it hands the scope over unchanged, and \<open>_captureRequestSession\<close>
  discards the session with its warning. For a client with a release,
  \<open>initSessionFlusher\<close> returns with no warning and a new flusher set, bound to the
  transport of the client's backend and to its release and environment. In both cases
  the method returns: the model has no branch that throws, as the source has none.
\<close>

theorem initSessionFlusher_release:
  "(\<not> truthy_string (release (options c)) \<longrightarrow>
      initSessionFlusher c = (c, [no_release_warning]) \<and>
      sessionFlusher (fst (initSessionFlusher c)) = sessionFlusher c) \<and>
   (\<not> truthy_string (release (options c)) \<and> sessionFlusher c = None \<longrightarrow>
      sessionFlusher (fst (initSessionFlusher c)) = None \<and>
      snd (captureException super_captureException (fst (initSessionFlusher c)) exc hint scope)
        = scope \<and>
      snd (captureEvent super_captureEvent (fst (initSessionFlusher c)) event hint' scope')
        = scope' \<and>
      captureRequestSession (fst (initSessionFlusher c)) = ([discarded_session_warning], [])) \<and>
   (truthy_string (release (options c)) \<longrightarrow>
      (\<exists>rel. release (options c) = Some rel \<and>
         initSessionFlusher c =
           (c\<lparr>sessionFlusher :=
                 Some (new_SessionFlusher (backend_transport c) rel (environment (options c)))\<rparr>,
            []) \<and>
         flusher_transport (new_SessionFlusher (backend_transport c) rel (environment (options c)))
           = backend_transport c \<and>
         flusher_release (new_SessionFlusher (backend_transport c) rel (environment (options c)))
           = rel \<and>
         flusher_environment (new_SessionFlusher (backend_transport c) rel (environment (options c)))
           = environment (options c)))"
proof (intro conjI impI)
  assume "\<not> truthy_string (release (options c))"
  then show "initSessionFlusher c = (c, [no_release_warning])"
    and "sessionFlusher (fst (initSessionFlusher c)) = sessionFlusher c"
    by (simp_all add: initSessionFlusher_def)
next
  assume "\<not> truthy_string (release (options c)) \<and> sessionFlusher c = None"
  then have none: "sessionFlusher c = None" and init: "initSessionFlusher c = (c, [no_release_warning])"
    by (simp_all add: initSessionFlusher_def)
  show "sessionFlusher (fst (initSessionFlusher c)) = None"
    using init none by simp
  show "snd (captureException super_captureException (fst (initSessionFlusher c)) exc hint scope)
        = scope"
    using init none by (simp add: captureException_def tracking_active_def)
  show "snd (captureEvent super_captureEvent (fst (initSessionFlusher c)) event hint' scope')
        = scope'"
    using init none by (simp add: captureEvent_def tracking_active_def)
  show "captureRequestSession (fst (initSessionFlusher c)) = ([discarded_session_warning], [])"
    using init none by (simp add: captureRequestSession_def)
next
  assume "truthy_string (release (options c))"
  then show "\<exists>rel. release (options c) = Some rel \<and>
         initSessionFlusher c =
           (c\<lparr>sessionFlusher :=
                 Some (new_SessionFlusher (backend_transport c) rel (environment (options c)))\<rparr>,
            []) \<and>
         flusher_transport (new_SessionFlusher (backend_transport c) rel (environment (options c)))
           = backend_transport c \<and>
         flusher_release (new_SessionFlusher (backend_transport c) rel (environment (options c)))
           = rel \<and>
         flusher_environment (new_SessionFlusher (backend_transport c) rel (environment (options c)))
           = environment (options c)"
    by (cases "release (options c)")
       (simp_all add: initSessionFlusher_def new_SessionFlusher_def)
qed

theorem initSessionFlusher_release_witness:
  "\<not> truthy_string (release (options client_without_release)) \<and>
   sessionFlusher client_without_release = None \<and>
   initSessionFlusher client_without_release = (client_without_release, [no_release_warning]) \<and>
   snd (captureException base_capture client_without_release ''test exception'' None
          (Some (scope_with Ok))) = Some (scope_with Ok) \<and>
   captureRequestSession client_without_release = ([discarded_session_warning], []) \<and>
   truthy_string (release (options client_without_handler)) \<and>
   initSessionFlusher client_without_handler = (tracking_client, []) \<and>
   sessionFlusher tracking_client = Some (new_SessionFlusher () ''1.4'' None)"
proof -
  have a: "sessionFlusher client_without_release = None"
    and b: "\<not> truthy_string (release (options client_without_release))"
    and c: "truthy_string (release (options client_without_handler))"
    by (simp_all add: test_inputs client_defs)
  note lacking = initSessionFlusher_release [of client_without_release base_capture
      "''test exception''" None "Some (scope_with Ok)" base_capture exception_event None None]
  have warned: "initSessionFlusher client_without_release
                  = (client_without_release, [no_release_warning])"
    using lacking b by blast
  have capture: "snd (captureException base_capture client_without_release ''test exception''
                   None (Some (scope_with Ok))) = Some (scope_with Ok)"
    using lacking a b warned by simp
  have discard: "captureRequestSession client_without_release = ([discarded_session_warning], [])"
    using lacking a b warned by simp
  have built: "initSessionFlusher client_without_handler = (tracking_client, [])"
    by (simp add: tracking_client_def client_without_handler_def initSessionFlusher_def
          new_NodeClient_def tracking_options_def)
  note present = initSessionFlusher_release [of client_without_handler base_capture
      "''test exception''" None "Some (scope_with Ok)" base_capture exception_event None None]
  have "\<exists>rel. release (options client_without_handler) = Some rel \<and>
          initSessionFlusher client_without_handler =
            (client_without_handler\<lparr>sessionFlusher :=
               Some (new_SessionFlusher (backend_transport client_without_handler) rel
                       (environment (options client_without_handler)))\<rparr>, [])"
    using present c by blast
  then have flusher: "sessionFlusher tracking_client = Some (new_SessionFlusher () ''1.4'' None)"
    by (auto simp: tracking_client_def client_without_handler_def new_NodeClient_def
          tracking_options_def)
  show ?thesis
    using a b c warned capture discard built flusher by simp
qed

section \<open>Sampling decisions\<close>

lemmas sampling_inputs =
  dogpark_def tracing_disabled_def rate_config_def sampler_config_def

lemmas sampling_defs =
  startTransaction_def decideSampling_def sample_by_rate_def type_warning_def range_warning_def

lemma startTransaction_sampled:
  "sampled (fst (startTransaction cfg ctx custom rnd))
     = Some (decision (fst (decideSampling ctx cfg custom rnd)))"
  by (simp add: startTransaction_def split: prod.splits)

lemma startTransaction_warnings:
  "snd (startTransaction cfg ctx custom rnd) = snd (decideSampling ctx cfg custom rnd)"
  by (simp add: startTransaction_def split: prod.splits)

lemma sample_by_rate_decision:
  "decision (fst (sample_by_rate m v rnd))
     = (\<exists>r. validSampleRate v = Inr r \<and> (r = 1 \<or> (0 < r \<and> rnd < r)))"
proof (cases "validSampleRate v")
  case (Inl w)
  then show ?thesis by (simp add: sample_by_rate_def)
next
  case (Inr r)
  then have "0 \<le> r" by (cases v) (auto split: if_splits)
  with Inr show ?thesis by (auto simp: sample_by_rate_def)
qed

lemma validSampleRate_wrong_type: "wrong_type v \<Longrightarrow> validSampleRate v = Inl type_warning"
  by (cases v) simp_all

lemma validSampleRate_out_of_bounds: "out_of_bounds v \<Longrightarrow> validSampleRate v = Inl range_warning"
  by (cases v) simp_all

lemma validSampleRate_valid:
  "\<not> wrong_type v \<Longrightarrow> \<not> out_of_bounds v \<Longrightarrow> \<exists>r. validSampleRate v = Inr r"
  by (cases v) auto

text \<open>
  Claim C6. Whatever the configuration (any \<open>tracesSampleRate\<close>, any
  \<open>tracesSampler\<close>), the custom sampling context, the parent's decision and the random
  value: when the transaction context carries an explicit boolean \<open>sampled\<close>, the
  transaction produced has that boolean as its \<open>sampled\<close> value, the method recorded
  is \<open>Explicit\<close>, and no warning is logged.
\<close>

theorem explicit_decision_honoured:
  assumes "sampled ctx = Some b"
    and "startTransaction cfg ctx custom rnd = (tx, warnings)"
  shows "sampled tx = Some b \<and> transactionSampling tx = Some (Explicit, None) \<and> warnings = []"
  using assms by (auto simp: startTransaction_def decideSampling_def)

theorem explicit_decision_honoured_witness:
  "sampled (dogpark\<lparr>sampled := Some True\<rparr>) = Some True \<and>
   startTransaction (sampler_config (JSNumber 0)) (dogpark\<lparr>sampled := Some True\<rparr>) None (1/2)
     = (\<lparr>name = ''dogpark'', parentSpanId = None, parentSampled = None, sampled = Some True,
         transactionSampling = Some (Explicit, None)\<rparr>, []) \<and>
   sampled (dogpark\<lparr>sampled := Some False\<rparr>) = Some False \<and>
   sampled (fst (startTransaction (sampler_config (JSNumber 1))
                   (dogpark\<lparr>sampled := Some False\<rparr>) None (1/2))) = Some False"
proof -
  have a: "sampled (dogpark\<lparr>sampled := Some True\<rparr>) = Some True"
    and b: "sampled (dogpark\<lparr>sampled := Some False\<rparr>) = Some False"
    by simp_all
  have run: "startTransaction (sampler_config (JSNumber 0)) (dogpark\<lparr>sampled := Some True\<rparr>)
               None (1/2)
     = (\<lparr>name = ''dogpark'', parentSpanId = None, parentSampled = None, sampled = Some True,
         transactionSampling = Some (Explicit, None)\<rparr>, [])"
    by (simp add: sampling_inputs sampling_defs)
  have run2: "startTransaction (sampler_config (JSNumber 1)) (dogpark\<lparr>sampled := Some False\<rparr>)
                None (1/2)
     = (fst (startTransaction (sampler_config (JSNumber 1)) (dogpark\<lparr>sampled := Some False\<rparr>)
                None (1/2)),
        snd (startTransaction (sampler_config (JSNumber 1)) (dogpark\<lparr>sampled := Some False\<rparr>)
                None (1/2)))"
    by simp
  show ?thesis
    using explicit_decision_honoured [OF a run] explicit_decision_honoured [OF b run2] a b run
    by simp
qed

text \<open>
  Claim C7 as stated lets a boolean \<open>parentSampled\<close> decide whenever no custom sampler
  is configured. With neither a rate nor a sampler configured step 2 comes first: for
  the context \<open>dogpark\<close> with \<open>parentSampled = true\<close> the decision is \<open>false\<close>, and no
  method is recorded.
\<close>

theorem parent_decision_counterexample:
  "sampled (dogpark\<lparr>parentSampled := Some True\<rparr>) = None \<and>
   tracesSampler tracing_disabled = None \<and>
   parentSampled (dogpark\<lparr>parentSampled := Some True\<rparr>) = Some True \<and>
   sampled (fst (startTransaction tracing_disabled (dogpark\<lparr>parentSampled := Some True\<rparr>)
                   None (1/2))) = Some False \<and>
   transactionSampling (fst (startTransaction tracing_disabled
                   (dogpark\<lparr>parentSampled := Some True\<rparr>) None (1/2))) = None"
  by (simp add: sampling_inputs sampling_defs)

text \<open>
  Claim C7, amended. For a transaction context without an explicit \<open>sampled\<close>: with a
  custom sampler configured, the decision is the one its return value gives (valid
  rate 1, or valid positive rate above the random value), whatever \<open>parentSampled\<close>
  is, so a sampler returning a boolean decides that boolean; with no custom sampler but
  a static rate configured, a boolean \<open>parentSampled\<close> is the decision, the method is
  \<open>Inheritance\<close> and the rate is not consulted; with no custom sampler and no
  \<open>parentSampled\<close>, the static rate decides; with neither rate nor sampler configured
  the decision is \<open>false\<close>.
\<close>

theorem sampling_precedence:
  assumes "sampled ctx = None"
  shows "(tracesSampler cfg = Some f \<longrightarrow>
            sampled (fst (startTransaction cfg ctx custom rnd)) =
              Some (\<exists>r. validSampleRate (f ctx custom) = Inr r \<and> (r = 1 \<or> (0 < r \<and> rnd < r))) \<and>
            (\<forall>b. f ctx custom = JSBoolean b \<longrightarrow>
               sampled (fst (startTransaction cfg ctx custom rnd)) = Some b \<and>
               transactionSampling (fst (startTransaction cfg ctx custom rnd))
                 = Some (Sampler, Some (if b then 1 else 0)))) \<and>
         (tracesSampler cfg = None \<and> tracesSampleRate cfg \<noteq> None \<longrightarrow>
            (\<forall>p. parentSampled ctx = Some p \<longrightarrow>
               sampled (fst (startTransaction cfg ctx custom rnd)) = Some p \<and>
               transactionSampling (fst (startTransaction cfg ctx custom rnd))
                 = Some (Inheritance, None) \<and>
               snd (startTransaction cfg ctx custom rnd) = [])) \<and>
         (tracesSampler cfg = None \<and> parentSampled ctx = None \<longrightarrow>
            (\<forall>v. tracesSampleRate cfg = Some v \<longrightarrow>
               sampled (fst (startTransaction cfg ctx custom rnd)) =
                 Some (\<exists>r. validSampleRate v = Inr r \<and> (r = 1 \<or> (0 < r \<and> rnd < r))))) \<and>
         (tracesSampler cfg = None \<and> tracesSampleRate cfg = None \<longrightarrow>
            sampled (fst (startTransaction cfg ctx custom rnd)) = Some False \<and>
            snd (startTransaction cfg ctx custom rnd) = [])"
proof (intro conjI impI allI)
  assume "tracesSampler cfg = Some f"
  then have d: "decideSampling ctx cfg custom rnd = sample_by_rate Sampler (f ctx custom) rnd"
    using assms by (simp add: decideSampling_def)
  show "sampled (fst (startTransaction cfg ctx custom rnd)) =
          Some (\<exists>r. validSampleRate (f ctx custom) = Inr r \<and> (r = 1 \<or> (0 < r \<and> rnd < r)))"
    by (simp add: startTransaction_sampled d sample_by_rate_decision)
  fix b assume "f ctx custom = JSBoolean b"
  then show "sampled (fst (startTransaction cfg ctx custom rnd)) = Some b"
    and "transactionSampling (fst (startTransaction cfg ctx custom rnd))
                 = Some (Sampler, Some (if b then 1 else 0))"
    by (simp_all add: startTransaction_def d sample_by_rate_def)
next
  fix p assume "tracesSampler cfg = None \<and> tracesSampleRate cfg \<noteq> None" "parentSampled ctx = Some p"
  then have d: "decideSampling ctx cfg custom rnd =
      (\<lparr>decision = p, samplingMethod = Some Inheritance, samplingRate = None\<rparr>, [])"
    using assms by (auto simp: decideSampling_def)
  show "sampled (fst (startTransaction cfg ctx custom rnd)) = Some p"
    and "transactionSampling (fst (startTransaction cfg ctx custom rnd)) = Some (Inheritance, None)"
    and "snd (startTransaction cfg ctx custom rnd) = []"
    by (simp_all add: startTransaction_def d)
next
  fix v assume "tracesSampler cfg = None \<and> parentSampled ctx = None" "tracesSampleRate cfg = Some v"
  then have d: "decideSampling ctx cfg custom rnd = sample_by_rate Rate v rnd"
    using assms by (simp add: decideSampling_def)
  show "sampled (fst (startTransaction cfg ctx custom rnd)) =
          Some (\<exists>r. validSampleRate v = Inr r \<and> (r = 1 \<or> (0 < r \<and> rnd < r)))"
    by (simp add: startTransaction_sampled d sample_by_rate_decision)
next
  assume "tracesSampler cfg = None \<and> tracesSampleRate cfg = None"
  then have d: "decideSampling ctx cfg custom rnd =
      (\<lparr>decision = False, samplingMethod = None, samplingRate = None\<rparr>, [])"
    using assms by (simp add: decideSampling_def)
  show "sampled (fst (startTransaction cfg ctx custom rnd)) = Some False"
    and "snd (startTransaction cfg ctx custom rnd) = []"
    by (simp_all add: startTransaction_def d)
qed


theorem sampling_precedence_witness:
  "sampled dogpark = None \<and>
   sampled (fst (startTransaction (sampler_config (JSBoolean True))
                   (dogpark\<lparr>parentSampled := Some False\<rparr>) None (1/2))) = Some True \<and>
   sampled (fst (startTransaction (sampler_config (JSBoolean False))
                   (dogpark\<lparr>parentSampled := Some True\<rparr>) None (1/2))) = Some False \<and>
   sampled (fst (startTransaction (rate_config (JSNumber (1/2)))
                   (dogpark\<lparr>parentSampled := Some True\<rparr>) None 1)) = Some True \<and>
   sampled (fst (startTransaction (rate_config (JSNumber 1))
                   (dogpark\<lparr>parentSampled := Some False\<rparr>) None (1/2))) = Some False \<and>
   sampled (fst (startTransaction (rate_config (JSNumber 1)) dogpark None (1/2))) = Some True \<and>
   sampled (fst (startTransaction (rate_config (JSNumber 0)) dogpark None (1/2))) = Some False \<and>
   sampled (fst (startTransaction tracing_disabled dogpark None (1/2))) = Some False"
proof -
  have s0: "sampled dogpark = None"
    and s1: "sampled (dogpark\<lparr>parentSampled := Some False\<rparr>) = None"
    and s2: "sampled (dogpark\<lparr>parentSampled := Some True\<rparr>) = None"
    by (simp_all add: dogpark_def)
  have a: "sampled (fst (startTransaction (sampler_config (JSBoolean True))
                   (dogpark\<lparr>parentSampled := Some False\<rparr>) None (1/2))) = Some True"
    using sampling_precedence [OF s1, where cfg = "sampler_config (JSBoolean True)"
        and f = "\<lambda>ctx custom. JSBoolean True" and custom = None and rnd = "1/2"]
    by (auto simp: sampler_config_def)
  have b: "sampled (fst (startTransaction (sampler_config (JSBoolean False))
                   (dogpark\<lparr>parentSampled := Some True\<rparr>) None (1/2))) = Some False"
    using sampling_precedence [OF s2, where cfg = "sampler_config (JSBoolean False)"
        and f = "\<lambda>ctx custom. JSBoolean False" and custom = None and rnd = "1/2"]
    by (auto simp: sampler_config_def)
  have c: "sampled (fst (startTransaction (rate_config (JSNumber (1/2)))
                   (dogpark\<lparr>parentSampled := Some True\<rparr>) None 1)) = Some True"
    using sampling_precedence [OF s2, where cfg = "rate_config (JSNumber (1/2))"
        and custom = None and rnd = 1]
    by (auto simp: rate_config_def)
  have d: "sampled (fst (startTransaction (rate_config (JSNumber 1))
                   (dogpark\<lparr>parentSampled := Some False\<rparr>) None (1/2))) = Some False"
    using sampling_precedence [OF s1, where cfg = "rate_config (JSNumber 1)"
        and custom = None and rnd = "1/2"]
    by (auto simp: rate_config_def)
  have e: "sampled (fst (startTransaction (rate_config (JSNumber 1)) dogpark None (1/2))) = Some True"
    using sampling_precedence [OF s0, where cfg = "rate_config (JSNumber 1)"
        and custom = None and rnd = "1/2"]
    by (auto simp: rate_config_def dogpark_def)
  have f: "sampled (fst (startTransaction (rate_config (JSNumber 0)) dogpark None (1/2))) = Some False"
    using sampling_precedence [OF s0, where cfg = "rate_config (JSNumber 0)"
        and custom = None and rnd = "1/2"]
    by (auto simp: rate_config_def dogpark_def)
  have g: "sampled (fst (startTransaction tracing_disabled dogpark None (1/2))) = Some False"
    using sampling_precedence [OF s0, where cfg = tracing_disabled
        and custom = None and rnd = "1/2"]
    by (auto simp: tracing_disabled_def)
  show ?thesis
    using s0 a b c d e f g by simp
qed

text \<open>
  Claim C8 as stated covers every configured rate that fails the validation. A rate
  that is not consulted is not validated: with \<open>tracesSampleRate = 26\<close>, a context
  with the explicit decision \<open>sampled = true\<close>, and a context with
  \<open>parentSampled = true\<close>, are both sampled, and no warning is logged.
\<close>

theorem invalid_rate_counterexample:
  "out_of_bounds (JSNumber 26) \<and>
   tracesSampleRate (rate_config (JSNumber 26)) = Some (JSNumber 26) \<and>
   startTransaction (rate_config (JSNumber 26)) (dogpark\<lparr>sampled := Some True\<rparr>) None (1/2)
     = (\<lparr>name = ''dogpark'', parentSpanId = None, parentSampled = None, sampled = Some True,
         transactionSampling = Some (Explicit, None)\<rparr>, []) \<and>
   startTransaction (rate_config (JSNumber 26)) (dogpark\<lparr>parentSampled := Some True\<rparr>) None (1/2)
     = (\<lparr>name = ''dogpark'', parentSpanId = None, parentSampled = Some True,
         sampled = Some True, transactionSampling = Some (Inheritance, None)\<rparr>, [])"
  by (simp add: sampling_inputs sampling_defs)

text \<open>
  Claim C8, amended. For a transaction context without an explicit \<open>sampled\<close>, let
  the value consulted be the return value of the configured custom sampler or, with no
  custom sampler and no boolean \<open>parentSampled\<close>, the configured sample rate. When
  that value has the wrong type (not a boolean and not a number, or \<open>NaN\<close>), the
  decision is \<open>false\<close> and the warnings of the call are exactly the one about the
  type; when it is a number out of \<open>[0, 1]\<close>, the decision is \<open>false\<close> and the
  warnings are exactly the one about the bounds; the two warnings differ; a value that
  passes logs nothing.
\<close>

theorem invalid_rate_rejected:
  assumes "sampled ctx = None"
    and "(tracesSampler cfg = Some f \<and> v = f ctx custom) \<or>
         (tracesSampler cfg = None \<and> parentSampled ctx = None \<and> tracesSampleRate cfg = Some v)"
    and "startTransaction cfg ctx custom rnd = (tx, warnings)"
  shows "(wrong_type v \<longrightarrow> sampled tx = Some False \<and> warnings = [type_warning]) \<and>
         (out_of_bounds v \<longrightarrow> sampled tx = Some False \<and> warnings = [range_warning]) \<and>
         (\<not> wrong_type v \<and> \<not> out_of_bounds v \<longrightarrow> warnings = []) \<and>
         type_warning \<noteq> range_warning"
proof -
  obtain m where d: "decideSampling ctx cfg custom rnd = sample_by_rate m v rnd"
    using assms(1,2) by (auto simp: decideSampling_def)
  have tx: "sampled tx = Some (decision (fst (sample_by_rate m v rnd)))"
    and ws: "warnings = snd (sample_by_rate m v rnd)"
    using assms(3) startTransaction_sampled [of cfg ctx custom rnd]
      startTransaction_warnings [of cfg ctx custom rnd] d
    by simp_all
  have "wrong_type v \<longrightarrow> sampled tx = Some False \<and> warnings = [type_warning]"
    using tx ws by (auto simp: sample_by_rate_def dest: validSampleRate_wrong_type)
  moreover have "out_of_bounds v \<longrightarrow> sampled tx = Some False \<and> warnings = [range_warning]"
    using tx ws by (auto simp: sample_by_rate_def dest: validSampleRate_out_of_bounds)
  moreover have "\<not> wrong_type v \<and> \<not> out_of_bounds v \<longrightarrow> warnings = []"
    using ws validSampleRate_valid [of v] by (auto simp: sample_by_rate_def)
  moreover have "type_warning \<noteq> range_warning"
    by (simp add: type_warning_def range_warning_def)
  ultimately show ?thesis by blast
qed

theorem invalid_rate_rejected_witness:
  "sampled dogpark = None \<and>
   wrong_type (JSString ''dogs!'') \<and> wrong_type JSNaN \<and>
   out_of_bounds (JSNumber (- 26)) \<and> out_of_bounds (JSNumber 31) \<and>
   startTransaction (rate_config (JSString ''dogs!'')) dogpark None (1/2)
     = (fst (startTransaction (rate_config (JSString ''dogs!'')) dogpark None (1/2)),
        [type_warning]) \<and>
   sampled (fst (startTransaction (rate_config (JSString ''dogs!'')) dogpark None (1/2)))
     = Some False \<and>
   startTransaction (rate_config (JSNumber (- 26))) dogpark None (1/2)
     = (fst (startTransaction (rate_config (JSNumber (- 26))) dogpark None (1/2)),
        [range_warning]) \<and>
   sampled (fst (startTransaction (rate_config (JSNumber (- 26))) dogpark None (1/2)))
     = Some False \<and>
   startTransaction (sampler_config JSNaN) dogpark None (1/2)
     = (fst (startTransaction (sampler_config JSNaN) dogpark None (1/2)), [type_warning]) \<and>
   sampled (fst (startTransaction (sampler_config JSNaN) dogpark None (1/2))) = Some False \<and>
   startTransaction (sampler_config (JSNumber 31)) dogpark None (1/2)
     = (fst (startTransaction (sampler_config (JSNumber 31)) dogpark None (1/2)),
        [range_warning]) \<and>
   sampled (fst (startTransaction (sampler_config (JSNumber 31)) dogpark None (1/2)))
     = Some False"
proof -
  have s0: "sampled dogpark = None"
    by (simp add: dogpark_def)
  have ty: "wrong_type (JSString ''dogs!'')" "wrong_type JSNaN"
    and rg: "out_of_bounds (JSNumber (- 26))" "out_of_bounds (JSNumber 31)"
    by simp_all
  have rate: "\<And>v. (tracesSampler (rate_config v) = Some (\<lambda>ctx custom. v) \<and> v = v) \<or>
                 (tracesSampler (rate_config v) = None \<and> parentSampled dogpark = None \<and>
                  tracesSampleRate (rate_config v) = Some v)"
    by (simp add: rate_config_def dogpark_def)
  have sampler: "\<And>v. (tracesSampler (sampler_config v) = Some (\<lambda>ctx custom. v) \<and> v = v) \<or>
                 (tracesSampler (sampler_config v) = None \<and> parentSampled dogpark = None \<and>
                  tracesSampleRate (sampler_config v) = Some v)"
    by (simp add: sampler_config_def)
  have pair: "\<And>cfg. startTransaction cfg dogpark (None :: unit option) (1/2)
              = (fst (startTransaction cfg dogpark None (1/2)),
                 snd (startTransaction cfg dogpark None (1/2)))"
    by simp
  note r1 = invalid_rate_rejected [OF s0 rate pair, of "JSString ''dogs!''"]
  note r2 = invalid_rate_rejected [OF s0 rate pair, of "JSNumber (- 26)"]
  note r3 = invalid_rate_rejected [OF s0 sampler pair, of JSNaN]
  note r4 = invalid_rate_rejected [OF s0 sampler pair, of "JSNumber 31"]
  have w1: "snd (startTransaction (rate_config (JSString ''dogs!'')) dogpark None (1/2))
              = [type_warning]"
    and d1: "sampled (fst (startTransaction (rate_config (JSString ''dogs!'')) dogpark None (1/2)))
              = Some False"
    using r1 ty by simp_all
  have w2: "snd (startTransaction (rate_config (JSNumber (- 26))) dogpark None (1/2))
              = [range_warning]"
    and d2: "sampled (fst (startTransaction (rate_config (JSNumber (- 26))) dogpark None (1/2)))
              = Some False"
    using r2 rg by simp_all
  have w3: "snd (startTransaction (sampler_config JSNaN) dogpark None (1/2)) = [type_warning]"
    and d3: "sampled (fst (startTransaction (sampler_config JSNaN) dogpark None (1/2))) = Some False"
    using r3 ty by simp_all
  have w4: "snd (startTransaction (sampler_config (JSNumber 31)) dogpark None (1/2))
              = [range_warning]"
    and d4: "sampled (fst (startTransaction (sampler_config (JSNumber 31)) dogpark None (1/2)))
              = Some False"
    using r4 rg by simp_all
  show ?thesis
    using s0 ty rg w1 d1 w2 d2 w3 d3 w4 d4
    by (simp add: prod_eq_iff)
qed

end
